theory Spec2Isabelle
  imports Main
begin

section \<open>JavaScript values\<close>

text \<open>
  The handlers of \<^verbatim>\<open>app.ts\<close> read fields off an error object, choose between
  two values with \<^verbatim>\<open>||\<close> and build an object literal. The values they touch are
  modelled by one datatype. A field that is absent reads as \<open>JUndefined\<close>, as a
  property read does in JavaScript. Numbers are modelled by their integer values, with
  \<open>JNaN\<close> apart because it is falsy.
\<close>

datatype js_value =
    JUndefined
  | JNull
  | JBool bool
  | JNum int
  | JNaN
  | JStr string
  | JArr "js_value list"
  | JObj "(string \<times> js_value) list"

text \<open>JavaScript's truthiness: the falsy values are undefined, null, false, 0, NaN and
  the empty string.\<close>

fun truthy :: "js_value \<Rightarrow> bool" where
  "truthy JUndefined = False"
| "truthy JNull = False"
| "truthy (JBool b) = b"
| "truthy (JNum n) = (n \<noteq> 0)"
| "truthy JNaN = False"
| "truthy (JStr s) = (s \<noteq> [])"
| "truthy (JArr xs) = True"
| "truthy (JObj kvs) = True"

text \<open>The operator \<^verbatim>\<open>a || b\<close>: the left operand when it is truthy, else the right.\<close>

definition js_or :: "js_value \<Rightarrow> js_value \<Rightarrow> js_value" where
  "js_or a b = (if truthy a then a else b)"

text \<open>The exceptions that the calls of the handlers can raise, by their class.\<close>

datatype js_exception = TypeError | RangeError

section \<open>JSON documents\<close>

text \<open>
  The body that \<^verbatim>\<open>res.json\<close> sends is the JSON text of its argument. The model
  keeps the document that text denotes. Serialisation has no result for undefined; a
  member of an object whose value has none is left out, an element of an array that has
  none becomes null, and NaN becomes null.
\<close>

datatype json =
    J_null
  | J_bool bool
  | J_num int
  | J_str string
  | J_arr "json list"
  | J_obj "(string \<times> json) list"

definition elements :: "json option list \<Rightarrow> json list" where
  "elements js = map (\<lambda>j. case j of None \<Rightarrow> J_null | Some v \<Rightarrow> v) js"

definition members :: "(string \<times> json option) list \<Rightarrow> (string \<times> json) list" where
  "members kvs = List.map_filter (\<lambda>(k, j). map_option (Pair k) j) kvs"

primrec json_stringify :: "js_value \<Rightarrow> json option" where
  "json_stringify JUndefined = None"
| "json_stringify JNull = Some J_null"
| "json_stringify (JBool b) = Some (J_bool b)"
| "json_stringify (JNum n) = Some (J_num n)"
| "json_stringify JNaN = Some J_null"
| "json_stringify (JStr s) = Some (J_str s)"
| "json_stringify (JArr xs) = Some (J_arr (elements (map json_stringify xs)))"
| "json_stringify (JObj kvs) =
     Some (J_obj (members (map (map_prod id json_stringify) kvs)))"

section \<open>The collaborators: logger, request, response\<close>

datatype level = Warn | Error | Info

text \<open>A log line is the severity it was logged at and the arguments it was given.\<close>

record log_line =
  level :: level
  args :: "js_value list"

text \<open>The logging sink is shared by the bootstrap and the handlers; it is append-only.\<close>

record sinks =
  logger :: "log_line list"

definition logger_warn :: "js_value list \<Rightarrow> 'a sinks_scheme \<Rightarrow> 'a sinks_scheme" where
  "logger_warn as s = s\<lparr>logger := logger s @ [\<lparr>level = Warn, args = as\<rparr>]\<rparr>"

definition logger_error :: "js_value list \<Rightarrow> 'a sinks_scheme \<Rightarrow> 'a sinks_scheme" where
  "logger_error as s = s\<lparr>logger := logger s @ [\<lparr>level = Error, args = as\<rparr>]\<rparr>"

definition logger_info :: "js_value list \<Rightarrow> 'a sinks_scheme \<Rightarrow> 'a sinks_scheme" where
  "logger_info as s = s\<lparr>logger := logger s @ [\<lparr>level = Info, args = as\<rparr>]\<rparr>"

datatype http_method = GET | HEAD | POST | PUT | DELETE | PATCH | OPTIONS

record request =
  verb :: http_method
  path :: string
  headers :: "(string \<times> string) list"
  query :: "(string \<times> string) list"
  body :: js_value

text \<open>
  What a handler wrote as the response: \<^verbatim>\<open>res.send\<close> of a string writes text,
  \<^verbatim>\<open>res.json\<close> writes the JSON document of the value it is given.
\<close>

datatype payload = Text string | Json "json option"

text \<open>
  The response object: the status code, the payload written, and how many times a
  response was written. A response that no handler has touched yet has status 200.
\<close>

record response =
  status_code :: js_value
  payload :: "payload option"
  writes :: nat

definition fresh_response :: response where
  "fresh_response = \<lparr>status_code = JNum 200, payload = None, writes = 0\<rparr>"

text \<open>
  \<^verbatim>\<open>res.status(code)\<close> checks the code before it stores it: a code that is not an
  integer raises a TypeError, an integer below 100 or above 999 raises a RangeError, and
  in both cases the status is left as it was. Otherwise the code is stored and the
  response is returned for chaining.
\<close>

definition res_status :: "js_value \<Rightarrow> response \<Rightarrow> js_exception + response" where
  "res_status c r =
     (case c of
        JNum n \<Rightarrow>
          if n < 100 \<or> 999 < n then Inl RangeError else Inr (r\<lparr>status_code := c\<rparr>)
      | _ \<Rightarrow> Inl TypeError)"

definition res_send :: "string \<Rightarrow> response \<Rightarrow> response" where
  "res_send s r = r\<lparr>payload := Some (Text s), writes := Suc (writes r)\<rparr>"

definition res_json :: "js_value \<Rightarrow> response \<Rightarrow> response" where
  "res_json v r = r\<lparr>payload := Some (Json (json_stringify v)), writes := Suc (writes r)\<rparr>"

text \<open>
  The state a handler runs in: the logger, the response, the errors handed to
  \<^verbatim>\<open>next\<close> (none of the handlers of this application calls it), and the exception
  that left the handler, if one did. A handler that an exception leaves has not answered:
  the framework's own last handler answers in its place.
\<close>

record handler_state = sinks +
  res :: response
  next_calls :: "js_value list"
  thrown :: "js_exception option"

section \<open>The application object\<close>

text \<open>
  The error-shaped value the fallback handler receives. The handler reads three fields;
  each is \<open>JUndefined\<close> when the error does not carry it.
\<close>

record http_error =
  statusCode :: js_value
  name :: js_value
  message :: js_value

text \<open>\<^verbatim>\<open>app.get('/', (req, res) => { res.send('Welcome to auth service') })\<close>\<close>

definition root_handler :: "request \<Rightarrow> handler_state \<Rightarrow> handler_state" where
  "root_handler req s = s\<lparr>res := res_send ''Welcome to auth service'' (res s)\<rparr>"

text \<open>
  The global error handler, \<^verbatim>\<open>app.use((err, req, res, next) => ...)\<close>. It logs,
  chooses the status code and calls \<^verbatim>\<open>res.status(statusCode).json(...)\<close>: when
  \<^verbatim>\<open>res.status\<close> raises, \<^verbatim>\<open>.json\<close> is not reached and the exception leaves
  the handler.
\<close>

definition error_handler :: "http_error \<Rightarrow> request \<Rightarrow> handler_state \<Rightarrow> handler_state" where
  "error_handler err req s =
     (let s1 = logger_error [message err] s;
          code = js_or (statusCode err) (JNum 500)
      in case res_status code (res s1) of
           Inl e \<Rightarrow> s1\<lparr>thrown := Some e\<rparr>
         | Inr r \<Rightarrow>
             s1\<lparr>res :=
                  res_json
                    (JObj [(''error'',
                       JArr [JObj [(''type'', name err),
                                   (''msg'', message err),
                                   (''path'', JStr ''''),
                                   (''location'', JStr '''')]])])
                    r\<rparr>)"

text \<open>
  Dispatch of a request that raised no error. The only route the application registers
  is \<^verbatim>\<open>app.get('/')\<close>: it is entered for a request to the path \<^verbatim>\<open>/\<close> whose
  verb is GET (the framework also enters a GET route for HEAD). Any other request
  matches nothing this repository registers and is answered by the framework itself:
  the result is \<open>None\<close>.
\<close>

definition app :: "request \<Rightarrow> handler_state \<Rightarrow> handler_state option" where
  "app req s =
     (if (verb req = GET \<or> verb req = HEAD) \<and> path req = ''/''
      then Some (root_handler req s) else None)"

section \<open>The bootstrap\<close>

text \<open>
  \<^verbatim>\<open>app.listen(PORT, callback)\<close> belongs to the framework. It has three outcomes.
  The listener is bound and the callback is run. The listener fails to bind (the port is
  in use, say): the call has returned by then, the failure is reported to the callback,
  which is run with the error as its argument, and nothing is thrown into the
  \<^verbatim>\<open>try\<close> block. Or the call itself throws, as it does for a port that is no
  port number, and the \<^verbatim>\<open>catch\<close> block runs.
\<close>

datatype listen_result = Listening | BindFailed js_value | Threw js_value

text \<open>
  The process: the logger, what \<^verbatim>\<open>console.error\<close> printed, the exit code once
  \<^verbatim>\<open>process.exit\<close> was called, and the ports \<^verbatim>\<open>app.listen\<close> was called with.
\<close>

record process_state = sinks +
  console :: "js_value list"
  exit_code :: "int option"
  listen_calls :: "js_value list"

definition console_error :: "js_value \<Rightarrow> process_state \<Rightarrow> process_state" where
  "console_error v s = s\<lparr>console := console s @ [v]\<rparr>"

definition process_exit :: "int \<Rightarrow> process_state \<Rightarrow> process_state" where
  "process_exit c s = s\<lparr>exit_code := Some c\<rparr>"

text \<open>
  The callback handed to \<^verbatim>\<open>app.listen\<close>. It declares no parameter, so an error
  it is run with is not looked at.
\<close>

definition listen_callback :: "js_value \<Rightarrow> process_state \<Rightarrow> process_state" where
  "listen_callback PORT s =
     logger_info [JStr ''Server listening on port'', JObj [(''port'', PORT)]]
       (logger_error [JStr ''testing logger error'']
         (logger_warn [JStr ''testing logger warn''] s))"

text \<open>
  \<^verbatim>\<open>startServer\<close>. The behaviour of \<^verbatim>\<open>app.listen\<close> and the value of
  \<^verbatim>\<open>Config.PORT\<close> are parameters: neither is defined in the sources at hand.
\<close>

definition startServer ::
  "(js_value \<Rightarrow> listen_result) \<Rightarrow> js_value \<Rightarrow> process_state \<Rightarrow> process_state" where
  "startServer listen PORT s =
     (let s1 = s\<lparr>listen_calls := listen_calls s @ [PORT]\<rparr> in
      case listen PORT of
        Listening \<Rightarrow> listen_callback PORT s1
      | BindFailed e \<Rightarrow> listen_callback PORT s1
      | Threw err \<Rightarrow> process_exit 1 (console_error err s1))"

section \<open>The helper of the test file\<close>

text \<open>
  Modelled from the spec: the helper \<^verbatim>\<open>sum\<close> that \<^verbatim>\<open>app.test.ts\<close> imports
  from \<^verbatim>\<open>./src/utilis.js\<close> is not among the sources. The specification calls it a
  helper addition function.
\<close>

definition sum_utilis :: "int \<Rightarrow> int \<Rightarrow> int" where
  "sum_utilis a b = a + b"

section \<open>The root route\<close>

text \<open>
  C1. Every GET request to the root path \<^verbatim>\<open>/\<close> is answered by the application
  with status 200 and the literal body \<^verbatim>\<open>Welcome to auth service\<close>: on a response
  that nothing has touched yet, the route writes that text once and leaves the status at
  200, whatever else the request carries and whatever the logger holds.
\<close>

theorem get_root_responds:
  "verb req = GET \<Longrightarrow> path req = ''/'' \<Longrightarrow> res s = fresh_response \<Longrightarrow>
   app req s =
     Some (s\<lparr>res := \<lparr>status_code = JNum 200,
                      payload = Some (Text ''Welcome to auth service''),
                      writes = 1\<rparr>\<rparr>)"
  by (simp add: app_def root_handler_def res_send_def fresh_response_def)

theorem get_root_responds_witness:
  "app \<lparr>verb = GET, path = ''/'', headers = [(''accept'', ''*/*'')], query = [],
        body = JUndefined\<rparr>
       \<lparr>logger = [], res = fresh_response, next_calls = [], thrown = None\<rparr> =
   Some \<lparr>logger = [],
         res = \<lparr>status_code = JNum 200,
                payload = Some (Text ''Welcome to auth service''), writes = 1\<rparr>,
         next_calls = [], thrown = None\<rparr>"
  using get_root_responds
    [of "\<lparr>verb = GET, path = ''/'', headers = [(''accept'', ''*/*'')], query = [],
          body = JUndefined\<rparr>"
        "\<lparr>logger = [], res = fresh_response, next_calls = [], thrown = None\<rparr>"]
  by simp

text \<open>
  C10. The root route ignores its request: two GET requests to \<^verbatim>\<open>/\<close>, whatever
  their headers, query strings and bodies, handled on equal responses, are both answered,
  with the same status and the same body.
\<close>

theorem root_ignores_request:
  "verb r1 = GET \<Longrightarrow> path r1 = ''/'' \<Longrightarrow> verb r2 = GET \<Longrightarrow> path r2 = ''/'' \<Longrightarrow>
   res s1 = res s2 \<Longrightarrow>
   \<exists>t1 t2. app r1 s1 = Some t1 \<and> app r2 s2 = Some t2
     \<and> status_code (res t1) = status_code (res t2)
     \<and> payload (res t1) = payload (res t2)"
  by (simp add: app_def root_handler_def)

theorem root_ignores_request_witness:
  "\<exists>t1 t2.
     app \<lparr>verb = GET, path = ''/'', headers = [(''accept'', ''text/html'')],
          query = [(''debug'', ''1'')], body = JUndefined\<rparr>
         \<lparr>logger = [], res = fresh_response, next_calls = [], thrown = None\<rparr> = Some t1
   \<and> app \<lparr>verb = GET, path = ''/'', headers = [(''authorization'', ''Bearer x'')],
          query = [], body = JObj [(''admin'', JBool True)]\<rparr>
         \<lparr>logger = [\<lparr>level = Info, args = [JStr ''earlier'']\<rparr>], res = fresh_response,
          next_calls = [], thrown = None\<rparr> = Some t2
   \<and> status_code (res t1) = status_code (res t2)
   \<and> payload (res t1) = payload (res t2)"
  using root_ignores_request
    [of "\<lparr>verb = GET, path = ''/'', headers = [(''accept'', ''text/html'')],
          query = [(''debug'', ''1'')], body = JUndefined\<rparr>"
        "\<lparr>verb = GET, path = ''/'', headers = [(''authorization'', ''Bearer x'')],
          query = [], body = JObj [(''admin'', JBool True)]\<rparr>"
        "\<lparr>logger = [], res = fresh_response, next_calls = [], thrown = None\<rparr>"
        "\<lparr>logger = [\<lparr>level = Info, args = [JStr ''earlier'']\<rparr>], res = fresh_response,
          next_calls = [], thrown = None\<rparr>"]
  by simp

section \<open>The fallback error handler\<close>

text \<open>
  C2. For every error that reaches the fallback handler with a status code that
  \<^verbatim>\<open>res.status\<close> accepts, the status of the response is the error's
  \<^verbatim>\<open>statusCode\<close> when that field is truthy, and 500 when it is absent or
  falsy. A truthy code is accepted when it is an integer from 100 to 999.
\<close>

theorem error_handler_status:
  "\<not> truthy (statusCode err) \<or> (\<exists>n. statusCode err = JNum n \<and> 100 \<le> n \<and> n \<le> 999) \<Longrightarrow>
   status_code (res (error_handler err req s)) =
     (if truthy (statusCode err) then statusCode err else JNum 500)"
  by (auto simp add: error_handler_def Let_def logger_error_def js_or_def res_json_def
      res_status_def)

theorem error_handler_status_witness:
  "status_code (res (error_handler
      \<lparr>statusCode = JNum 404, name = JStr ''NotFoundError'', message = JStr ''Not Found''\<rparr>
      \<lparr>verb = POST, path = ''/login'', headers = [], query = [], body = JNull\<rparr>
      \<lparr>logger = [], res = fresh_response, next_calls = [], thrown = None\<rparr>)) = JNum 404
   \<and> status_code (res (error_handler
      \<lparr>statusCode = JUndefined, name = JStr ''Error'', message = JStr ''boom''\<rparr>
      \<lparr>verb = POST, path = ''/login'', headers = [], query = [], body = JNull\<rparr>
      \<lparr>logger = [], res = fresh_response, next_calls = [], thrown = None\<rparr>)) = JNum 500
   \<and> status_code (res (error_handler
      \<lparr>statusCode = JNum 0, name = JStr ''Error'', message = JStr ''boom''\<rparr>
      \<lparr>verb = POST, path = ''/login'', headers = [], query = [], body = JNull\<rparr>
      \<lparr>logger = [], res = fresh_response, next_calls = [], thrown = None\<rparr>)) = JNum 500"
  using
    error_handler_status
      [of "\<lparr>statusCode = JNum 404, name = JStr ''NotFoundError'',
            message = JStr ''Not Found''\<rparr>"
          "\<lparr>verb = POST, path = ''/login'', headers = [], query = [], body = JNull\<rparr>"
          "\<lparr>logger = [], res = fresh_response, next_calls = [], thrown = None\<rparr>"]
    error_handler_status
      [of "\<lparr>statusCode = JUndefined, name = JStr ''Error'', message = JStr ''boom''\<rparr>"
          "\<lparr>verb = POST, path = ''/login'', headers = [], query = [], body = JNull\<rparr>"
          "\<lparr>logger = [], res = fresh_response, next_calls = [], thrown = None\<rparr>"]
    error_handler_status
      [of "\<lparr>statusCode = JNum 0, name = JStr ''Error'', message = JStr ''boom''\<rparr>"
          "\<lparr>verb = POST, path = ''/login'', headers = [], query = [], body = JNull\<rparr>"
          "\<lparr>logger = [], res = fresh_response, next_calls = [], thrown = None\<rparr>"]
  by simp

text \<open>
  For the truthy status code 1000 the response does not get that status: the call of
  \<^verbatim>\<open>res.status\<close> raises a RangeError, which leaves the handler.
\<close>

theorem error_handler_status_counterexample:
  "truthy (JNum 1000)
   \<and> status_code (res (error_handler
        \<lparr>statusCode = JNum 1000, name = JStr ''Error'', message = JStr ''boom''\<rparr>
        \<lparr>verb = POST, path = ''/login'', headers = [], query = [], body = JNull\<rparr>
        \<lparr>logger = [], res = fresh_response, next_calls = [], thrown = None\<rparr>))
       \<noteq> JNum 1000
   \<and> thrown (error_handler
        \<lparr>statusCode = JNum 1000, name = JStr ''Error'', message = JStr ''boom''\<rparr>
        \<lparr>verb = POST, path = ''/login'', headers = [], query = [], body = JNull\<rparr>
        \<lparr>logger = [], res = fresh_response, next_calls = [], thrown = None\<rparr>)
       = Some RangeError"
  by (simp add: error_handler_def Let_def logger_error_def js_or_def res_status_def
      fresh_response_def)




text \<open>
  C6. For every error that reaches the fallback handler, the log grows by exactly one
  line, written at error severity, whose text is the error's message.
\<close>

theorem error_handler_logs:
  "logger (error_handler err req s) =
     logger s @ [\<lparr>level = Error, args = [message err]\<rparr>]"
  by (simp add: error_handler_def Let_def logger_error_def split: sum.split)

text \<open>
  C8. The fallback handler never forwards the error: whatever error it receives, it
  hands nothing to \<^verbatim>\<open>next\<close>. When \<^verbatim>\<open>res.status\<close> accepts the status
  code, the handler writes exactly one response itself and no exception leaves it.
\<close>

theorem error_handler_answers_itself:
  "next_calls (error_handler err req s) = next_calls s
   \<and> (\<not> truthy (statusCode err) \<or> (\<exists>n. statusCode err = JNum n \<and> 100 \<le> n \<and> n \<le> 999) \<longrightarrow>
        writes (res (error_handler err req s)) = Suc (writes (res s))
        \<and> thrown (error_handler err req s) = thrown s)"
  by (auto simp add: error_handler_def Let_def logger_error_def js_or_def res_json_def
      res_status_def split: sum.split)

theorem error_handler_answers_itself_witness:
  "next_calls (error_handler
      \<lparr>statusCode = JNum 503, name = JStr ''Error'', message = JStr ''down''\<rparr>
      \<lparr>verb = PUT, path = ''/users/1'', headers = [], query = [], body = JNull\<rparr>
      \<lparr>logger = [], res = fresh_response, next_calls = [], thrown = None\<rparr>) = []
   \<and> writes (res (error_handler
      \<lparr>statusCode = JNum 503, name = JStr ''Error'', message = JStr ''down''\<rparr>
      \<lparr>verb = PUT, path = ''/users/1'', headers = [], query = [], body = JNull\<rparr>
      \<lparr>logger = [], res = fresh_response, next_calls = [], thrown = None\<rparr>)) = 1
   \<and> thrown (error_handler
      \<lparr>statusCode = JNum 503, name = JStr ''Error'', message = JStr ''down''\<rparr>
      \<lparr>verb = PUT, path = ''/users/1'', headers = [], query = [], body = JNull\<rparr>
      \<lparr>logger = [], res = fresh_response, next_calls = [], thrown = None\<rparr>) = None"
  using error_handler_answers_itself
    [of "\<lparr>statusCode = JNum 503, name = JStr ''Error'', message = JStr ''down''\<rparr>"
        "\<lparr>verb = PUT, path = ''/users/1'', headers = [], query = [], body = JNull\<rparr>"
        "\<lparr>logger = [], res = fresh_response, next_calls = [], thrown = None\<rparr>"]
  by (simp add: fresh_response_def)

text \<open>
  For the status code 99 the handler writes no response: \<^verbatim>\<open>res.status\<close>
  raises a RangeError, which leaves the handler.
\<close>

theorem error_handler_answers_itself_counterexample:
  "writes (res (error_handler
      \<lparr>statusCode = JNum 99, name = JStr ''Error'', message = JStr ''boom''\<rparr>
      \<lparr>verb = GET, path = ''/'', headers = [], query = [], body = JUndefined\<rparr>
      \<lparr>logger = [], res = fresh_response, next_calls = [], thrown = None\<rparr>)) = 0
   \<and> thrown (error_handler
      \<lparr>statusCode = JNum 99, name = JStr ''Error'', message = JStr ''boom''\<rparr>
      \<lparr>verb = GET, path = ''/'', headers = [], query = [], body = JUndefined\<rparr>
      \<lparr>logger = [], res = fresh_response, next_calls = [], thrown = None\<rparr>)
     = Some RangeError"
  by (simp add: error_handler_def Let_def logger_error_def js_or_def res_status_def
      fresh_response_def)




section \<open>The bootstrap's paths\<close>

text \<open>
  The \<^verbatim>\<open>catch\<close> block: when the call of \<^verbatim>\<open>app.listen\<close> itself throws,
  the error is printed to the console and the process is ended with exit code 1.
\<close>

lemma startServer_listen_throws:
  "listen PORT = Threw err \<Longrightarrow>
   startServer listen PORT s =
     s\<lparr>console := console s @ [err], exit_code := Some 1,
       listen_calls := listen_calls s @ [PORT]\<rparr>"
  by (simp add: startServer_def Let_def process_exit_def console_error_def)

text \<open>
  C4. When the listener fails to bind because the port is in use, the failure does not
  reach the \<^verbatim>\<open>catch\<close> block: the callback is run, the three lines are logged
  as on success, nothing is printed to the console and the process is not ended.
\<close>

theorem startServer_bind_failure:
  "startServer (\<lambda>p. BindFailed (JStr ''EADDRINUSE'')) (JNum 5501)
     \<lparr>logger = [], console = [], exit_code = None, listen_calls = []\<rparr> =
   \<lparr>logger =
      [\<lparr>level = Warn, args = [JStr ''testing logger warn'']\<rparr>,
       \<lparr>level = Error, args = [JStr ''testing logger error'']\<rparr>,
       \<lparr>level = Info,
        args = [JStr ''Server listening on port'', JObj [(''port'', JNum 5501)]]\<rparr>],
    console = [], exit_code = None, listen_calls = [JNum 5501]\<rparr>"
  by (simp add: startServer_def Let_def listen_callback_def logger_warn_def logger_error_def
      logger_info_def)

text \<open>
  C5. When the listener is bound, the bootstrap logs exactly three lines, in the order
  warn, error, info, whatever the port and the state of the process, and does nothing
  else: nothing is printed to the console and the process is not ended.
\<close>

theorem startServer_listening:
  "listen PORT = Listening \<Longrightarrow>
   startServer listen PORT s =
     s\<lparr>logger := logger s @
          [\<lparr>level = Warn, args = [JStr ''testing logger warn'']\<rparr>,
           \<lparr>level = Error, args = [JStr ''testing logger error'']\<rparr>,
           \<lparr>level = Info,
            args = [JStr ''Server listening on port'', JObj [(''port'', PORT)]]\<rparr>],
       listen_calls := listen_calls s @ [PORT]\<rparr>"
  by (simp add: startServer_def Let_def listen_callback_def logger_warn_def logger_error_def
      logger_info_def)

theorem startServer_listening_witness:
  "startServer (\<lambda>p. Listening) (JNum 5501)
     \<lparr>logger = [], console = [], exit_code = None, listen_calls = []\<rparr> =
   \<lparr>logger =
      [\<lparr>level = Warn, args = [JStr ''testing logger warn'']\<rparr>,
       \<lparr>level = Error, args = [JStr ''testing logger error'']\<rparr>,
       \<lparr>level = Info,
        args = [JStr ''Server listening on port'', JObj [(''port'', JNum 5501)]]\<rparr>],
    console = [], exit_code = None, listen_calls = [JNum 5501]\<rparr>"
  using startServer_listening
    [of "\<lambda>p. Listening" "JNum 5501"
        "\<lparr>logger = [], console = [], exit_code = None, listen_calls = []\<rparr>"]
  by simp

section \<open>The helper of the test file, checked\<close>

text \<open>
  C7. The helper \<^verbatim>\<open>sum\<close> applied to 1 and 2 returns 3, the assertion of
  \<^verbatim>\<open>app.test.ts\<close>.
\<close>

theorem sum_one_two: "sum_utilis 1 2 = 3"
  by (simp add: sum_utilis_def)

end
